theory Spec2Isabelle
  imports Main
begin

section \<open>JavaScript values that reach fetchWithAuth\<close>

text \<open>
  The three pages (EntriesPage.jsx, SummariesPage.jsx and the dashboard) define the same
  \<^verbatim>\<open>fetchWithAuth\<close>, line for line. It talks to three collaborators of the browser:
  \<^verbatim>\<open>localStorage\<close>, \<^verbatim>\<open>fetch\<close> and the router's \<^verbatim>\<open>navigate\<close>. The model
  threads one state through the function, holding the storage, a log of the storage
  writes, a log of the navigations, a log of the requests handed to \<^verbatim>\<open>fetch\<close>, and
  the state of the remote side. It follows one call on its own: between the steps of the
  call nothing else writes to the storage, and the storage has room for what is written.

  The ways a step of the function can throw.
\<close>

datatype error =
    FetchFailed       \<comment> \<open>\<^verbatim>\<open>fetch\<close> rejected: no response arrived\<close>
  | JsonSyntaxError   \<comment> \<open>\<^verbatim>\<open>refreshRes.json()\<close> rejected\<close>
  | TypeError         \<comment> \<open>\<^verbatim>\<open>data\<close> is \<^verbatim>\<open>null\<close>, or \<^verbatim>\<open>data.access\<close> has no string\<close>

text \<open>
  A parsed JSON value. Numbers and booleans matter to \<^verbatim>\<open>fetchWithAuth\<close> only through
  the string JavaScript converts them to, so \<open>JOther\<close> carries that string. The keys of
  a \<open>JObj\<close> are distinct, as in every object \<^verbatim>\<open>JSON.parse\<close> builds.
\<close>

datatype json =
    JNull | JStr string | JOther string | JArr "json list" | JObj "(string \<times> json) list"

text \<open>
  The conversion to a string that a template literal and \<^verbatim>\<open>localStorage.setItem\<close>
  apply to their argument. An object is converted by its \<^verbatim>\<open>toString\<close>: the inherited
  one gives \<^verbatim>\<open>[object Object]\<close>, but an object parsed from JSON with a key
  \<^verbatim>\<open>toString\<close> of its own holds a value there that cannot be called, \<^verbatim>\<open>valueOf\<close>
  (inherited, or a key of its own) gives no primitive either, and the conversion throws.
  An array is converted by \<^verbatim>\<open>join\<close>: its elements are converted in turn and
  separated by commas, \<^verbatim>\<open>null\<close> counting as the empty string.
\<close>

fun to_string :: "json \<Rightarrow> error + string"
  and join :: "json list \<Rightarrow> error + string" where
  "to_string JNull = Inr ''null''"
| "to_string (JStr s) = Inr s"
| "to_string (JOther s) = Inr s"
| "to_string (JObj kvs) =
     (if ''toString'' \<in> fst ` set kvs then Inl TypeError else Inr ''[object Object]'')"
| "to_string (JArr xs) = join xs"
| "join [] = Inr []"
| "join [x] = (if x = JNull then Inr [] else to_string x)"
| "join (x # y # ys) =
     (case (if x = JNull then Inr [] else to_string x) of
        Inl e \<Rightarrow> Inl e
      | Inr a \<Rightarrow> (case join (y # ys) of Inl e \<Rightarrow> Inl e | Inr b \<Rightarrow> Inr (a @ '','' @ b)))"

text \<open>A JavaScript value is \<open>json option\<close>, with \<open>None\<close> for \<^verbatim>\<open>undefined\<close>.\<close>

fun ToString :: "json option \<Rightarrow> error + string" where
  "ToString None = Inr ''undefined''"
| "ToString (Some v) = to_string v"

text \<open>
  \<^verbatim>\<open>localStorage.getItem\<close> returns a string, or \<^verbatim>\<open>null\<close> for a missing key:
  \<open>string option\<close> with \<open>None\<close> for \<^verbatim>\<open>null\<close>. In a template literal such a value
  is the string itself, or \<^verbatim>\<open>null\<close> spelled out; this conversion never throws.
\<close>

fun item_text :: "string option \<Rightarrow> string" where
  "item_text None = ''null''"
| "item_text (Some s) = s"

text \<open>\<^verbatim>\<open>!refresh\<close>: \<^verbatim>\<open>null\<close> and the empty string are the falsy values of this type.\<close>

fun falsy :: "string option \<Rightarrow> bool" where
  "falsy None = True"
| "falsy (Some s) = (s = [])"

section \<open>Requests and responses\<close>

text \<open>
  A request body is a string. The text \<^verbatim>\<open>JSON.stringify\<close> produces is kept as the
  value it encodes.
\<close>

datatype body = Text string | JSON_stringify json

text \<open>
  What a caller may pass as \<^verbatim>\<open>options.headers\<close>, as \<^verbatim>\<open>fetch\<close> accepts it: a plain
  object from names to values (its properties in order, under distinct names), an
  instance of \<^verbatim>\<open>Headers\<close> with its entries, or an array of arrays of strings.
\<close>

datatype headers_init =
    Plain "(string \<times> string) list"
  | Headers "(string \<times> string) list"
  | Sequence "string list list"

text \<open>
  The \<^verbatim>\<open>options\<close> argument, a plain object; a field that is \<open>None\<close> is absent
  (\<open>method_opt\<close> is its \<^verbatim>\<open>method\<close>).
\<close>

record options =
  method_opt :: "string option"
  headers :: "headers_init option"
  body :: "body option"

record request =
  url :: string
  init :: options

text \<open>
  What the function reads of a response: \<^verbatim>\<open>res.status\<close>, and \<^verbatim>\<open>await res.json()\<close>,
  which is \<open>None\<close> when the body is not JSON and the promise rejects.
\<close>

record response =
  status :: nat
  parsed :: "json option"

text \<open>\<^verbatim>\<open>res.ok\<close> is true for the statuses 200 to 299.\<close>

definition ok :: "response \<Rightarrow> bool" where
  "ok res = (200 \<le> status res \<and> status res \<le> 299)"

section \<open>The state around one call\<close>

datatype store_op = SetItem string string | RemoveItem string

record 'w state =
  storage :: "string \<rightharpoonup> string"
  writes :: "store_op list"
  navigated :: "string list"
  sent :: "request list"
  world :: 'w

text \<open>
  The remote side: given its state and a request, it answers with a response or with
  nothing (the promise of \<^verbatim>\<open>fetch\<close> rejects), and moves to a new state.
\<close>

type_synonym 'w network = "'w \<Rightarrow> request \<Rightarrow> response option \<times> 'w"

definition getItem :: "'w state \<Rightarrow> string \<Rightarrow> string option" where
  "getItem s k = storage s k"

definition setItem :: "string \<Rightarrow> string \<Rightarrow> 'w state \<Rightarrow> 'w state" where
  "setItem k v s = s\<lparr>storage := (storage s)(k \<mapsto> v), writes := writes s @ [SetItem k v]\<rparr>"

definition navigate :: "string \<Rightarrow> 'w state \<Rightarrow> 'w state" where
  "navigate path s = s\<lparr>navigated := navigated s @ [path]\<rparr>"

definition fetch :: "'w network \<Rightarrow> request \<Rightarrow> 'w state \<Rightarrow> (error + response) \<times> 'w state" where
  "fetch net rq s =
     (case net (world s) rq of
        (None, w) \<Rightarrow> (Inl FetchFailed, s\<lparr>sent := sent s @ [rq], world := w\<rparr>)
      | (Some res, w) \<Rightarrow> (Inr res, s\<lparr>sent := sent s @ [rq], world := w\<rparr>))"

text \<open>\<^verbatim>\<open>await refreshRes.json()\<close> and \<^verbatim>\<open>data.access\<close>.\<close>

definition json :: "response \<Rightarrow> error + json" where
  "json res = (case parsed res of None \<Rightarrow> Inl JsonSyntaxError | Some d \<Rightarrow> Inr d)"

fun access :: "json \<Rightarrow> error + json option" where
  "access JNull = Inl TypeError"
| "access (JObj kvs) = Inr (map_of kvs ''access'')"
| "access (JStr s) = Inr None"
| "access (JOther s) = Inr None"
| "access (JArr xs) = Inr None"

section \<open>The object literal of the headers\<close>

text \<open>
  An object under construction is the list of its properties, in the order they were
  created. Writing a property that exists replaces its value where it stands; writing a
  new one appends it.
\<close>

fun assign :: "(string \<times> string) list \<Rightarrow> string \<Rightarrow> string \<Rightarrow> (string \<times> string) list" where
  "assign [] k v = [(k, v)]"
| "assign ((k', v') # obj) k v = (if k' = k then (k', v) # obj else (k', v') # assign obj k v)"

text \<open>
  \<^verbatim>\<open>...options.headers\<close> copies the own enumerable properties of its operand.
  \<^verbatim>\<open>undefined\<close> has none. A plain object has its properties. An instance of
  \<^verbatim>\<open>Headers\<close> keeps its entries out of reach of the spread: it has none. An array has
  its indices, each holding an inner array, which \<^verbatim>\<open>fetch\<close> later converts to a string
  with commas.
\<close>

fun decimal :: "nat \<Rightarrow> string" where
  "decimal n =
     (if n < 10 then [''0123456789'' ! n]
      else decimal (n div 10) @ [''0123456789'' ! (n mod 10)])"

fun commas :: "string list \<Rightarrow> string" where
  "commas [] = []"
| "commas [x] = x"
| "commas (x # y # ys) = x @ '','' @ commas (y # ys)"

fun indexed :: "nat \<Rightarrow> string list list \<Rightarrow> (string \<times> string) list" where
  "indexed i [] = []"
| "indexed i (x # xs) = (decimal i, commas x) # indexed (Suc i) xs"

fun own_properties :: "headers_init option \<Rightarrow> (string \<times> string) list" where
  "own_properties None = []"
| "own_properties (Some (Plain kvs)) = kvs"
| "own_properties (Some (Headers hs)) = []"
| "own_properties (Some (Sequence ps)) = indexed 0 ps"

definition spread ::
    "(string \<times> string) list \<Rightarrow> (string \<times> string) list \<Rightarrow> (string \<times> string) list" where
  "spread src obj = fold (\<lambda>(k, v) obj. assign obj k v) src obj"

text \<open>
  \<^verbatim>\<open>{ "Content-Type": "application/json", ...options.headers, Authorization: v }\<close>.
\<close>

definition auth_headers :: "options \<Rightarrow> string \<Rightarrow> (string \<times> string) list" where
  "auth_headers opts v =
     assign (spread (own_properties (headers opts)) [(''Content-Type'', ''application/json'')])
       ''Authorization'' v"

section \<open>fetchWithAuth\<close>

text \<open>\<^verbatim>\<open>fetch(url, { ...options, headers: {...} })\<close>.\<close>

definition auth_request :: "string \<Rightarrow> options \<Rightarrow> string \<Rightarrow> request" where
  "auth_request u opts v =
     \<lparr>url = u, init = opts\<lparr>headers := Some (Plain (auth_headers opts v))\<rparr>\<rparr>"

definition refresh_request :: "string \<Rightarrow> request" where
  "refresh_request refresh =
     \<lparr>url = ''http://127.0.0.1:8000/api/token/refresh/'',
      init = \<lparr>method_opt = Some ''POST'',
              headers = Some (Plain [(''Content-Type'', ''application/json'')]),
              body = Some (JSON_stringify (JObj [(''refresh'', JStr refresh)]))\<rparr>\<rparr>"

text \<open>
  The function, statement by statement. A step that throws ends the call with \<open>Inl\<close>:
  the source has no \<^verbatim>\<open>try\<close> of its own, its callers have. Past the test
  \<^verbatim>\<open>!refresh\<close> the item is a non-empty string, which \<open>the\<close> reads. After a
  refresh, \<^verbatim>\<open>data.access\<close> is converted to a string twice, by \<^verbatim>\<open>setItem\<close> and
  then by the template literal; where it has no string the first conversion throws,
  before anything is written.
\<close>

definition fetchWithAuth ::
    "'w network \<Rightarrow> string \<Rightarrow> options \<Rightarrow> 'w state \<Rightarrow> (error + response) \<times> 'w state" where
  "fetchWithAuth net u opts s =
     (let token = getItem s ''access'' in
      case fetch net (auth_request u opts (''Bearer '' @ item_text token)) s of
        (Inl e, s1) \<Rightarrow> (Inl e, s1)
      | (Inr res, s1) \<Rightarrow>
          if status res = 401 then
            (let refresh = getItem s1 ''refresh'' in
             if falsy refresh then (Inr res, navigate ''/'' s1)
             else
               case fetch net (refresh_request (the refresh)) s1 of
                 (Inl e, s2) \<Rightarrow> (Inl e, s2)
               | (Inr refreshRes, s2) \<Rightarrow>
                   if ok refreshRes then
                     (case json refreshRes of
                        Inl e \<Rightarrow> (Inl e, s2)
                      | Inr data \<Rightarrow>
                          (case access data of
                             Inl e \<Rightarrow> (Inl e, s2)
                           | Inr a \<Rightarrow>
                               (case ToString a of
                                  Inl e \<Rightarrow> (Inl e, s2)
                                | Inr v \<Rightarrow>
                                    (let s3 = setItem ''access'' v s2 in
                                     case ToString a of
                                       Inl e \<Rightarrow> (Inl e, s3)
                                     | Inr v' \<Rightarrow>
                                         fetch net (auth_request u opts (''Bearer '' @ v')) s3))))
                   else (Inr res, navigate ''/'' s2))
          else (Inr res, s1))"

text \<open>The request interceptor of the axios instance (api/axios.jsx).\<close>

record config =
  config_url :: string
  config_headers :: "string \<rightharpoonup> string"

definition interceptor :: "(string \<rightharpoonup> string) \<Rightarrow> config \<Rightarrow> config" where
  "interceptor store cfg =
     (let token = store ''access'' in
      if \<not> falsy token
      then cfg\<lparr>config_headers :=
                 (config_headers cfg)(''Authorization'' \<mapsto> ''Bearer '' @ item_text token)\<rparr>
      else cfg)"

section \<open>The requests of one call\<close>

definition first_request :: "string \<Rightarrow> options \<Rightarrow> 'w state \<Rightarrow> request" where
  "first_request u opts s = auth_request u opts (''Bearer '' @ item_text (getItem s ''access''))"

text \<open>
  A property of the headers object of a request, by its exact name: what the object
  literal holds before \<^verbatim>\<open>fetch\<close> reads it.
\<close>

definition header :: "request \<Rightarrow> string \<Rightarrow> string option" where
  "header rq k = map_of (own_properties (headers (init rq))) k"





text \<open>How the remote side answered: with a 401, and with a response that is not \<^verbatim>\<open>ok\<close>.\<close>

fun is_401 :: "response option \<Rightarrow> bool" where
  "is_401 None = False"
| "is_401 (Some res) = (status res = 401)"

fun refused :: "response option \<Rightarrow> bool" where
  "refused None = False"
| "refused (Some res) = (\<not> ok res)"

section \<open>A scripted remote side and the values of the scenarios\<close>

text \<open>
  A remote side that answers the requests it receives from a prepared list, in order, and
  lets every later request fail; and a browser whose logs are empty.
\<close>

definition scripted :: "(response option list) network" where
  "scripted w rq = (case w of [] \<Rightarrow> (None, []) | r # rs \<Rightarrow> (r, rs))"

definition browser :: "(string \<rightharpoonup> string) \<Rightarrow> 'w \<Rightarrow> 'w state" where
  "browser store w = \<lparr>storage = store, writes = [], navigated = [], sent = [], world = w\<rparr>"

definition unauthorized :: response where
  "unauthorized = \<lparr>status = 401, parsed = Some (JObj [(''detail'', JStr ''Token is expired'')])\<rparr>"

definition fresh_token :: response where
  "fresh_token = \<lparr>status = 200, parsed = Some (JObj [(''access'', JStr ''new'')])\<rparr>"

definition entry :: response where
  "entry = \<lparr>status = 200, parsed = Some (JObj [(''id'', JOther ''1'')])\<rparr>"

definition server_error :: response where
  "server_error = \<lparr>status = 500, parsed = None\<rparr>"

definition today :: string where
  "today = ''http://127.0.0.1:8000/api/entries/today/''"

definition no_options :: options where
  "no_options = \<lparr>method_opt = None, headers = None, body = None\<rparr>"

definition logged_in :: "string \<rightharpoonup> string" where
  "logged_in = [''access'' \<mapsto> ''old'', ''refresh'' \<mapsto> ''r1'']"

definition token_not_valid :: response where
  "token_not_valid = \<lparr>status = 401, parsed = Some (JObj [(''code'', JStr ''token_not_valid'')])\<rparr>"

definition access_only :: "string \<rightharpoonup> string" where
  "access_only = [''access'' \<mapsto> ''old'']"

definition empty_refresh :: "string \<rightharpoonup> string" where
  "empty_refresh = [''access'' \<mapsto> ''old'', ''refresh'' \<mapsto> '''']"





definition token_config :: config where
  "token_config = \<lparr>config_url = ''token/'', config_headers = Map.empty\<rparr>"

text \<open>
  A refresh answer whose \<^verbatim>\<open>access\<close> is an object with a key \<^verbatim>\<open>toString\<close> of its
  own.
\<close>

definition odd_token :: response where
  "odd_token =
     \<lparr>status = 200,
      parsed = Some (JObj [(''access'', JObj [(''toString'', JStr ''x'')])])\<rparr>"

section \<open>The branches of fetchWithAuth\<close>

text \<open>One lemma for each path through the function, giving the result and the final state.\<close>

lemma first_rejects:
  assumes "net (world s) (first_request u opts s) = (None, w)"
  shows "fetchWithAuth net u opts s =
           (Inl FetchFailed, s\<lparr>sent := sent s @ [first_request u opts s], world := w\<rparr>)"
  using assms by (simp add: fetchWithAuth_def first_request_def fetch_def)

lemma not_401:
  assumes "net (world s) (first_request u opts s) = (Some res, w)" "status res \<noteq> 401"
  shows "fetchWithAuth net u opts s =
           (Inr res, s\<lparr>sent := sent s @ [first_request u opts s], world := w\<rparr>)"
  using assms by (simp add: fetchWithAuth_def first_request_def fetch_def)

lemma no_refresh:
  assumes "net (world s) (first_request u opts s) = (Some res, w)" "status res = 401"
    "falsy (getItem s ''refresh'')"
  shows "fetchWithAuth net u opts s =
           (Inr res, s\<lparr>navigated := navigated s @ [''/''],
                       sent := sent s @ [first_request u opts s], world := w\<rparr>)"
  using assms
  by (simp add: fetchWithAuth_def first_request_def fetch_def getItem_def navigate_def)

lemma refresh_rejects:
  assumes "net (world s) (first_request u opts s) = (Some res, w)" "status res = 401"
    "getItem s ''refresh'' = Some r" "r \<noteq> []" "net w (refresh_request r) = (None, w2)"
  shows "fetchWithAuth net u opts s =
           (Inl FetchFailed,
            s\<lparr>sent := sent s @ [first_request u opts s, refresh_request r], world := w2\<rparr>)"
  using assms
  by (simp add: fetchWithAuth_def first_request_def fetch_def getItem_def navigate_def)

lemma refresh_not_ok:
  assumes "net (world s) (first_request u opts s) = (Some res, w)" "status res = 401"
    "getItem s ''refresh'' = Some r" "r \<noteq> []"
    "net w (refresh_request r) = (Some rr, w2)" "\<not> ok rr"
  shows "fetchWithAuth net u opts s =
           (Inr res, s\<lparr>navigated := navigated s @ [''/''],
                       sent := sent s @ [first_request u opts s, refresh_request r],
                       world := w2\<rparr>)"
  using assms
  by (simp add: fetchWithAuth_def first_request_def fetch_def getItem_def navigate_def)

text \<open>
  After a 2xx answer of the refresh endpoint three steps can throw: reading the body as
  JSON, reading \<^verbatim>\<open>access\<close> of \<^verbatim>\<open>null\<close>, and converting \<^verbatim>\<open>data.access\<close> to a
  string. Each ends the call before anything is written.
\<close>

lemma refresh_throws:
  assumes "net (world s) (first_request u opts s) = (Some res, w)" "status res = 401"
    "getItem s ''refresh'' = Some r" "r \<noteq> []"
    "net w (refresh_request r) = (Some rr, w2)" "ok rr"
    "json rr = Inl e \<or> (\<exists>d. json rr = Inr d \<and> access d = Inl e)
       \<or> (\<exists>d a. json rr = Inr d \<and> access d = Inr a \<and> ToString a = Inl e)"
  shows "fetchWithAuth net u opts s =
           (Inl e, s\<lparr>sent := sent s @ [first_request u opts s, refresh_request r], world := w2\<rparr>)"
  using assms
  by (auto simp add: fetchWithAuth_def first_request_def fetch_def getItem_def navigate_def)

lemma refreshed:
  assumes "net (world s) (first_request u opts s) = (Some res, w)" "status res = 401"
    "getItem s ''refresh'' = Some r" "r \<noteq> []"
    "net w (refresh_request r) = (Some rr, w2)" "ok rr"
    "json rr = Inr d" "access d = Inr a" "ToString a = Inr v"
    "net w2 (auth_request u opts (''Bearer '' @ v)) = (out, w3)"
  shows "fetchWithAuth net u opts s =
     ((case out of None \<Rightarrow> Inl FetchFailed | Some res3 \<Rightarrow> Inr res3),
      s\<lparr>storage := (storage s)(''access'' \<mapsto> v),
        writes := writes s @ [SetItem ''access'' v],
        sent := sent s @ [first_request u opts s, refresh_request r,
                          auth_request u opts (''Bearer '' @ v)],
        world := w3\<rparr>)"
  using assms
  by (simp add: fetchWithAuth_def first_request_def fetch_def getItem_def navigate_def setItem_def
      split: option.splits)

text \<open>Every call takes one of these seven paths.\<close>

lemma fetchWithAuth_cases
  [case_names first_rejects not_401 no_refresh refresh_rejects refresh_not_ok refresh_throws
     refreshed]:
  obtains
    w where "net (world s) (first_request u opts s) = (None, w)"
      "fetchWithAuth net u opts s =
         (Inl FetchFailed, s\<lparr>sent := sent s @ [first_request u opts s], world := w\<rparr>)"
  | res w where "net (world s) (first_request u opts s) = (Some res, w)" "status res \<noteq> 401"
      "fetchWithAuth net u opts s =
         (Inr res, s\<lparr>sent := sent s @ [first_request u opts s], world := w\<rparr>)"
  | res w where "net (world s) (first_request u opts s) = (Some res, w)" "status res = 401"
      "falsy (getItem s ''refresh'')"
      "fetchWithAuth net u opts s =
         (Inr res, s\<lparr>navigated := navigated s @ [''/''],
                     sent := sent s @ [first_request u opts s], world := w\<rparr>)"
  | res w r w2 where "net (world s) (first_request u opts s) = (Some res, w)" "status res = 401"
      "getItem s ''refresh'' = Some r" "r \<noteq> []" "net w (refresh_request r) = (None, w2)"
      "fetchWithAuth net u opts s =
         (Inl FetchFailed,
          s\<lparr>sent := sent s @ [first_request u opts s, refresh_request r], world := w2\<rparr>)"
  | res w r rr w2 where "net (world s) (first_request u opts s) = (Some res, w)" "status res = 401"
      "getItem s ''refresh'' = Some r" "r \<noteq> []" "net w (refresh_request r) = (Some rr, w2)"
      "\<not> ok rr"
      "fetchWithAuth net u opts s =
         (Inr res, s\<lparr>navigated := navigated s @ [''/''],
                     sent := sent s @ [first_request u opts s, refresh_request r], world := w2\<rparr>)"
  | res w r rr w2 e where "net (world s) (first_request u opts s) = (Some res, w)" "status res = 401"
      "getItem s ''refresh'' = Some r" "r \<noteq> []" "net w (refresh_request r) = (Some rr, w2)"
      "ok rr"
      "json rr = Inl e \<or> (\<exists>d. json rr = Inr d \<and> access d = Inl e)
         \<or> (\<exists>d a. json rr = Inr d \<and> access d = Inr a \<and> ToString a = Inl e)"
      "fetchWithAuth net u opts s =
         (Inl e, s\<lparr>sent := sent s @ [first_request u opts s, refresh_request r], world := w2\<rparr>)"
  | res w r rr w2 d a v out w3 where "net (world s) (first_request u opts s) = (Some res, w)"
      "status res = 401"
      "getItem s ''refresh'' = Some r" "r \<noteq> []" "net w (refresh_request r) = (Some rr, w2)"
      "ok rr" "json rr = Inr d" "access d = Inr a" "ToString a = Inr v"
      "net w2 (auth_request u opts (''Bearer '' @ v)) = (out, w3)"
      "fetchWithAuth net u opts s =
         ((case out of None \<Rightarrow> Inl FetchFailed | Some res3 \<Rightarrow> Inr res3),
          s\<lparr>storage := (storage s)(''access'' \<mapsto> v),
            writes := writes s @ [SetItem ''access'' v],
            sent := sent s @ [first_request u opts s, refresh_request r,
                              auth_request u opts (''Bearer '' @ v)],
            world := w3\<rparr>)"
proof (cases "net (world s) (first_request u opts s)")
  case (Pair o1 w)
  note path = that
  show thesis
  proof (cases o1)
    case None
    note n1 = Pair[unfolded None]
    from that(1)[OF n1 first_rejects[where net=net, OF n1]]
    show thesis .
  next
    case (Some res)
    note n1 = Pair[unfolded Some]
    show thesis
    proof (cases "status res = 401")
      case False
      from that(2)[OF n1 False not_401[where net=net, OF n1 False]]
      show thesis .
    next
      case True
      show thesis
      proof (cases "falsy (getItem s ''refresh'')")
        case True
        from that(3)[OF n1 \<open>status res = 401\<close> True
            no_refresh[where net=net, OF n1 \<open>status res = 401\<close> True]]
        show thesis .
      next
        case False
        then obtain r where r: "getItem s ''refresh'' = Some r" "r \<noteq> []"
          by (cases "getItem s ''refresh''") simp_all
        show thesis
        proof (cases "net w (refresh_request r)")
          case (Pair o2 w2)
          show thesis
          proof (cases o2)
            case None
            note n2 = Pair[unfolded None]
            from that(4)[OF n1 True r n2 refresh_rejects[where net=net, OF n1 True r n2]]
            show thesis .
          next
            case (Some rr)
            note n2 = Pair[unfolded Some]
            show thesis
            proof (cases "ok rr")
              case False
              from that(5)[OF n1 True r n2 False
                  refresh_not_ok[where net=net, OF n1 True r n2 False]]
              show thesis .
            next
              case okrr: True
              have thrown: thesis
                if t: "json rr = Inl e \<or> (\<exists>d. json rr = Inr d \<and> access d = Inl e)
                         \<or> (\<exists>d a. json rr = Inr d \<and> access d = Inr a \<and> ToString a = Inl e)"
                for e
                using path(6)[OF n1 True r n2 okrr t
                    refresh_throws[where net=net, OF n1 True r n2 okrr t]] .
              show thesis
              proof (cases "json rr")
                case (Inl e)
                then show thesis
                  by (intro thrown[of e]) simp
              next
                case (Inr d)
                show thesis
                proof (cases "access d")
                  case (Inl e)
                  with Inr show thesis
                    by (intro thrown[of e]) simp
                next
                  case a: (Inr a)
                  show thesis
                  proof (cases "ToString a")
                    case (Inl e)
                    with Inr a show thesis
                      by (intro thrown[of e]) simp
                  next
                    case v: (Inr v)
                    obtain out w3
                      where n3: "net w2 (auth_request u opts (''Bearer '' @ v)) = (out, w3)"
                      by (cases "net w2 (auth_request u opts (''Bearer '' @ v))")
                    from that(7)[OF n1 True r n2 okrr Inr a v n3
                        refreshed[where net=net, OF n1 True r n2 okrr Inr a v n3]]
                    show thesis .
                  qed
                qed
              qed
            qed
          qed
        qed
      qed
    qed
  qed
qed

text \<open>Whatever happens afterwards, the first request is handed to \<^verbatim>\<open>fetch\<close>.\<close>

lemma first_request_sent:
  "\<exists>rest. sent (snd (fetchWithAuth net u opts s)) = sent s @ first_request u opts s # rest"
  by (cases rule: fetchWithAuth_cases[of net s u opts]) simp_all

text \<open>
  A refresh answer whose \<^verbatim>\<open>access\<close> has no string ends the call at
  \<^verbatim>\<open>setItem\<close>: two requests were sent and nothing was written.
\<close>

lemma access_without_string_throws:
  "fst (fetchWithAuth scripted today no_options
          (browser logged_in [Some unauthorized, Some odd_token, Some entry])) = Inl TypeError
   \<and> sent (snd (fetchWithAuth scripted today no_options
          (browser logged_in [Some unauthorized, Some odd_token, Some entry]))) =
       [auth_request today no_options ''Bearer old'', refresh_request ''r1'']
   \<and> writes (snd (fetchWithAuth scripted today no_options
          (browser logged_in [Some unauthorized, Some odd_token, Some entry]))) = []"
proof -
  let ?s = "browser logged_in [Some unauthorized, Some odd_token, Some entry]"
  have h1: "scripted (world ?s) (first_request today no_options ?s)
            = (Some unauthorized, [Some odd_token, Some entry])"
    by (simp add: scripted_def browser_def)
  have h2: "status unauthorized = 401"
    by (simp add: unauthorized_def)
  have h3: "getItem ?s ''refresh'' = Some ''r1''"
    by (simp add: getItem_def browser_def logged_in_def)
  have h4: "''r1'' \<noteq> []"
    by simp
  have h5: "scripted [Some odd_token, Some entry] (refresh_request ''r1'')
            = (Some odd_token, [Some entry])"
    by (simp add: scripted_def)
  have h6: "ok odd_token"
    by (simp add: ok_def odd_token_def)
  have h7: "json odd_token = Inl TypeError
      \<or> (\<exists>d. json odd_token = Inr d \<and> access d = Inl TypeError)
      \<or> (\<exists>d a. json odd_token = Inr d \<and> access d = Inr a \<and> ToString a = Inl TypeError)"
    by (simp add: json_def odd_token_def)
  have q1: "first_request today no_options ?s = auth_request today no_options ''Bearer old''"
    by (simp add: first_request_def getItem_def browser_def logged_in_def)
  show ?thesis
    using refresh_throws[where net=scripted, OF h1 h2 h3 h4 h5 h6 h7] q1
    by (simp add: browser_def)
qed

section \<open>The headers object, property by property\<close>

lemma map_of_assign: "map_of (assign obj k v) j = (if j = k then Some v else map_of obj j)"
  by (induction obj) auto






lemma headers_auth_request:
  "own_properties (headers (init (auth_request u opts v))) = auth_headers opts v"
  by (simp add: auth_request_def)

lemma header_Authorization: "header (auth_request u opts v) ''Authorization'' = Some v"
  by (simp add: header_def headers_auth_request auth_headers_def map_of_assign)



section \<open>The claims\<close>

text \<open>
  C1. When the first response has a status other than 401, the call returns that very
  response, and writes nothing to the storage: the log of writes and the storage itself
  are as before, for the key "access", the key "refresh" and every other key.
\<close>

theorem non_401_returned_unchanged:
  assumes "net (world s) (first_request u opts s) = (Some res, w)" and "status res \<noteq> 401"
  shows "fst (fetchWithAuth net u opts s) = Inr res
       \<and> writes (snd (fetchWithAuth net u opts s)) = writes s
       \<and> storage (snd (fetchWithAuth net u opts s)) = storage s"
  by (simp add: not_401[where net=net, OF assms])

theorem non_401_returned_unchanged_witness:
  "status server_error \<noteq> 401
   \<and> fst (fetchWithAuth scripted today no_options (browser logged_in [Some server_error])) = Inr server_error
   \<and> writes (snd (fetchWithAuth scripted today no_options (browser logged_in [Some server_error]))) = []
   \<and> storage (snd (fetchWithAuth scripted today no_options (browser logged_in [Some server_error]))) = logged_in"
proof -
  have h1: "scripted (world (browser logged_in [Some server_error]))
              (first_request today no_options (browser logged_in [Some server_error]))
            = (Some server_error, [])"
    by (simp add: scripted_def browser_def)
  have h2: "status server_error \<noteq> 401"
    by (simp add: server_error_def)
  from non_401_returned_unchanged[where net=scripted, OF h1 h2] h2 show ?thesis
    by (simp add: browser_def)
qed

text \<open>
  C2, as amended. When the first response is 401, the storage holds a refresh credential
  that is not the empty string, and the refresh endpoint answers 2xx with a JSON object
  whose \<^verbatim>\<open>access\<close> is the string \<open>new\<close>: one refresh request is sent, \<open>new\<close> is stored
  under "access", the original request is sent once more with the header
  \<^verbatim>\<open>Authorization: Bearer new\<close>, and the response to it is returned whatever its
  status. Three requests leave in all, in this order.
\<close>

theorem refresh_then_retry_once:
  assumes first: "net (world s) (first_request u opts s) = (Some res, w)" "status res = 401"
    and held: "getItem s ''refresh'' = Some r" "r \<noteq> []"
    and refresh: "net w (refresh_request r) = (Some rr, w2)" "ok rr"
      "parsed rr = Some (JObj kvs)" "map_of kvs ''access'' = Some (JStr new)"
    and retry: "net w2 (auth_request u opts (''Bearer '' @ new)) = (Some res3, w3)"
  shows "fst (fetchWithAuth net u opts s) = Inr res3
       \<and> sent (snd (fetchWithAuth net u opts s)) =
           sent s @ [first_request u opts s, refresh_request r,
                     auth_request u opts (''Bearer '' @ new)]
       \<and> header (auth_request u opts (''Bearer '' @ new)) ''Authorization'' = Some (''Bearer '' @ new)
       \<and> storage (snd (fetchWithAuth net u opts s)) ''access'' = Some new
       \<and> writes (snd (fetchWithAuth net u opts s)) = writes s @ [SetItem ''access'' new]"
proof -
  have d: "json rr = Inr (JObj kvs)"
    using refresh(3) by (simp add: json_def)
  have a: "access (JObj kvs) = Inr (Some (JStr new))"
    using refresh(4) by simp
  have v: "ToString (Some (JStr new)) = Inr new"
    by simp
  have run: "fetchWithAuth net u opts s =
      (Inr res3,
       s\<lparr>storage := (storage s)(''access'' \<mapsto> new),
         writes := writes s @ [SetItem ''access'' new],
         sent := sent s @ [first_request u opts s, refresh_request r,
                           auth_request u opts (''Bearer '' @ new)],
         world := w3\<rparr>)"
    using refreshed[where net=net, OF first held refresh(1,2) d a v retry] by simp
  show ?thesis
    unfolding run by (simp add: header_Authorization)
qed

theorem refresh_then_retry_once_witness:
  "status unauthorized = 401 \<and> ok fresh_token
   \<and> fst (fetchWithAuth scripted today no_options
             (browser logged_in [Some unauthorized, Some fresh_token, Some entry])) = Inr entry
   \<and> sent (snd (fetchWithAuth scripted today no_options
             (browser logged_in [Some unauthorized, Some fresh_token, Some entry]))) =
       [auth_request today no_options ''Bearer old'', refresh_request ''r1'',
        auth_request today no_options ''Bearer new'']
   \<and> header (auth_request today no_options ''Bearer new'') ''Authorization'' = Some ''Bearer new''
   \<and> storage (snd (fetchWithAuth scripted today no_options
             (browser logged_in [Some unauthorized, Some fresh_token, Some entry]))) ''access'' = Some ''new''
   \<and> writes (snd (fetchWithAuth scripted today no_options
             (browser logged_in [Some unauthorized, Some fresh_token, Some entry]))) =
       [SetItem ''access'' ''new'']"
proof -
  let ?s = "browser logged_in [Some unauthorized, Some fresh_token, Some entry]"
  have h1: "scripted (world ?s) (first_request today no_options ?s)
            = (Some unauthorized, [Some fresh_token, Some entry])"
    by (simp add: scripted_def browser_def)
  have h2: "status unauthorized = 401"
    by (simp add: unauthorized_def)
  have h3: "getItem ?s ''refresh'' = Some ''r1''"
    by (simp add: getItem_def browser_def logged_in_def)
  have h4: "''r1'' \<noteq> []"
    by simp
  have h5: "scripted [Some fresh_token, Some entry] (refresh_request ''r1'') = (Some fresh_token, [Some entry])"
    by (simp add: scripted_def)
  have h6: "ok fresh_token"
    by (simp add: ok_def fresh_token_def)
  have h7: "parsed fresh_token = Some (JObj [(''access'', JStr ''new'')])"
    by (simp add: fresh_token_def)
  have h8: "map_of [(''access'', JStr ''new'')] ''access'' = Some (JStr ''new'')"
    by simp
  have h9: "scripted [Some entry] (auth_request today no_options (''Bearer '' @ ''new'')) = (Some entry, [])"
    by (simp add: scripted_def)
  have q1: "first_request today no_options ?s = auth_request today no_options ''Bearer old''"
    by (simp add: first_request_def getItem_def browser_def logged_in_def)
  from refresh_then_retry_once[where net=scripted, OF h1 h2 h3 h4 h5 h6 h7 h8 h9] h2 h6 q1
  show ?thesis
    by (simp add: browser_def)
qed

text \<open>
  C2 as it is stated asks only that a refresh credential be held. The guard
  \<^verbatim>\<open>!refresh\<close> takes an empty string for a missing one: with \<^verbatim>\<open>""\<close> stored under
  "refresh" and a refresh endpoint ready to answer 200 with \<^verbatim>\<open>{access: "new"}\<close>, no
  refresh request is sent, the route \<^verbatim>\<open>/\<close> is navigated to, the stored access
  credential stays \<^verbatim>\<open>old\<close> and the first 401 is returned.
\<close>

theorem empty_refresh_credential_counterexample:
  "getItem (browser empty_refresh [Some unauthorized, Some fresh_token, Some entry]) ''refresh'' = Some ''''
   \<and> scripted [Some unauthorized, Some fresh_token, Some entry]
        (first_request today no_options (browser empty_refresh [Some unauthorized, Some fresh_token, Some entry]))
       = (Some unauthorized, [Some fresh_token, Some entry])
   \<and> status unauthorized = 401
   \<and> scripted [Some fresh_token, Some entry] (refresh_request '''') = (Some fresh_token, [Some entry])
   \<and> ok fresh_token
   \<and> parsed fresh_token = Some (JObj [(''access'', JStr ''new'')])
   \<and> fst (fetchWithAuth scripted today no_options
             (browser empty_refresh [Some unauthorized, Some fresh_token, Some entry])) = Inr unauthorized
   \<and> sent (snd (fetchWithAuth scripted today no_options
             (browser empty_refresh [Some unauthorized, Some fresh_token, Some entry]))) =
       [auth_request today no_options ''Bearer old'']
   \<and> storage (snd (fetchWithAuth scripted today no_options
             (browser empty_refresh [Some unauthorized, Some fresh_token, Some entry]))) ''access'' = Some ''old''
   \<and> navigated (snd (fetchWithAuth scripted today no_options
             (browser empty_refresh [Some unauthorized, Some fresh_token, Some entry]))) = [''/'']"
proof -
  let ?s = "browser empty_refresh [Some unauthorized, Some fresh_token, Some entry]"
  have h1: "scripted (world ?s) (first_request today no_options ?s)
            = (Some unauthorized, [Some fresh_token, Some entry])"
    by (simp add: scripted_def browser_def)
  have h2: "status unauthorized = 401"
    by (simp add: unauthorized_def)
  have h3: "falsy (getItem ?s ''refresh'')"
    by (simp add: getItem_def browser_def empty_refresh_def)
  have q1: "first_request today no_options ?s = auth_request today no_options ''Bearer old''"
    by (simp add: first_request_def getItem_def browser_def empty_refresh_def)
  have run: "fetchWithAuth scripted today no_options ?s =
      (Inr unauthorized, ?s\<lparr>navigated := navigated ?s @ [''/''],
           sent := sent ?s @ [first_request today no_options ?s], world := [Some fresh_token, Some entry]\<rparr>)"
    by (rule no_refresh[where net=scripted, OF h1 h2 h3])
  have h5: "scripted [Some fresh_token, Some entry] (refresh_request '''') = (Some fresh_token, [Some entry])"
    by (simp add: scripted_def)
  have h6: "ok fresh_token"
    by (simp add: ok_def fresh_token_def)
  have h7: "parsed fresh_token = Some (JObj [(''access'', JStr ''new'')])"
    by (simp add: fresh_token_def)
  have h0: "getItem ?s ''refresh'' = Some ''''"
    by (simp add: getItem_def browser_def empty_refresh_def)
  have w: "world ?s = [Some unauthorized, Some fresh_token, Some entry]"
    by (simp add: browser_def)
  show ?thesis
    unfolding run using h0 h1[unfolded w] h2 h5 h6 h7 q1
    by (simp add: browser_def empty_refresh_def)
qed

text \<open>
  C3. When the first response is 401 and the storage has no refresh credential, the
  navigation is invoked exactly once, the first request is the only one sent (no refresh
  call, no second request), the first 401 response is returned, and the storage is as
  before, with nothing written.
\<close>

theorem no_refresh_credential_navigates_once:
  assumes "net (world s) (first_request u opts s) = (Some res, w)" and "status res = 401"
    and "getItem s ''refresh'' = None"
  shows "fst (fetchWithAuth net u opts s) = Inr res
       \<and> navigated (snd (fetchWithAuth net u opts s)) = navigated s @ [''/'']
       \<and> sent (snd (fetchWithAuth net u opts s)) = sent s @ [first_request u opts s]
       \<and> storage (snd (fetchWithAuth net u opts s)) = storage s
       \<and> writes (snd (fetchWithAuth net u opts s)) = writes s"
proof -
  from assms(3) have "falsy (getItem s ''refresh'')"
    by simp
  with assms(1,2) have "fetchWithAuth net u opts s =
      (Inr res, s\<lparr>navigated := navigated s @ [''/''],
                  sent := sent s @ [first_request u opts s], world := w\<rparr>)"
    by (rule no_refresh[where net=net])
  then show ?thesis
    by simp
qed

theorem no_refresh_credential_navigates_once_witness:
  "status unauthorized = 401
   \<and> getItem (browser access_only [Some unauthorized, Some fresh_token, Some entry]) ''refresh'' = None
   \<and> fst (fetchWithAuth scripted today no_options
            (browser access_only [Some unauthorized, Some fresh_token, Some entry])) = Inr unauthorized
   \<and> navigated (snd (fetchWithAuth scripted today no_options
            (browser access_only [Some unauthorized, Some fresh_token, Some entry]))) = [''/'']
   \<and> sent (snd (fetchWithAuth scripted today no_options
            (browser access_only [Some unauthorized, Some fresh_token, Some entry]))) =
       [auth_request today no_options ''Bearer old'']
   \<and> storage (snd (fetchWithAuth scripted today no_options
            (browser access_only [Some unauthorized, Some fresh_token, Some entry]))) = access_only
   \<and> writes (snd (fetchWithAuth scripted today no_options
            (browser access_only [Some unauthorized, Some fresh_token, Some entry]))) = []"
proof -
  let ?s = "browser access_only [Some unauthorized, Some fresh_token, Some entry]"
  have h1: "scripted (world ?s) (first_request today no_options ?s)
            = (Some unauthorized, [Some fresh_token, Some entry])"
    by (simp add: scripted_def browser_def)
  have h2: "status unauthorized = 401"
    by (simp add: unauthorized_def)
  have h3: "getItem ?s ''refresh'' = None"
    by (simp add: getItem_def browser_def access_only_def)
  have q1: "first_request today no_options ?s = auth_request today no_options ''Bearer old''"
    by (simp add: first_request_def getItem_def browser_def access_only_def)
  from no_refresh_credential_navigates_once[where net=scripted, OF h1 h2 h3] h2 h3 q1
  show ?thesis
    by (simp add: browser_def)
qed

text \<open>
  C4. When the first response is 401, a refresh credential is held, and the refresh
  endpoint answers with a response that is not 2xx, the navigation is invoked exactly once,
  the stored access credential is as before (nothing is written), and the value returned
  is the first 401 response, not the response of the refresh endpoint.
\<close>

theorem failed_refresh_returns_original_401:
  assumes first: "net (world s) (first_request u opts s) = (Some res, w)" "status res = 401"
    and held: "getItem s ''refresh'' = Some r"
    and refresh: "net w (refresh_request r) = (Some rr, w2)" "\<not> ok rr"
  shows "fst (fetchWithAuth net u opts s) = Inr res
       \<and> navigated (snd (fetchWithAuth net u opts s)) = navigated s @ [''/'']
       \<and> storage (snd (fetchWithAuth net u opts s)) ''access'' = storage s ''access''
       \<and> writes (snd (fetchWithAuth net u opts s)) = writes s"
proof (cases "r = []")
  case True
  with held have "falsy (getItem s ''refresh'')"
    by simp
  with first have "fetchWithAuth net u opts s =
      (Inr res, s\<lparr>navigated := navigated s @ [''/''],
                  sent := sent s @ [first_request u opts s], world := w\<rparr>)"
    by (rule no_refresh[where net=net])
  then show ?thesis
    by simp
next
  case False
  with first held refresh have "fetchWithAuth net u opts s =
      (Inr res, s\<lparr>navigated := navigated s @ [''/''],
                  sent := sent s @ [first_request u opts s, refresh_request r], world := w2\<rparr>)"
    by (intro refresh_not_ok[where net=net])
  then show ?thesis
    by simp
qed

theorem failed_refresh_returns_original_401_witness:
  "status unauthorized = 401
   \<and> getItem (browser logged_in [Some unauthorized, Some token_not_valid]) ''refresh'' = Some ''r1''
   \<and> \<not> ok token_not_valid
   \<and> fst (fetchWithAuth scripted today no_options
            (browser logged_in [Some unauthorized, Some token_not_valid])) = Inr unauthorized
   \<and> navigated (snd (fetchWithAuth scripted today no_options
            (browser logged_in [Some unauthorized, Some token_not_valid]))) = [''/'']
   \<and> storage (snd (fetchWithAuth scripted today no_options
            (browser logged_in [Some unauthorized, Some token_not_valid]))) ''access'' = Some ''old''
   \<and> writes (snd (fetchWithAuth scripted today no_options
            (browser logged_in [Some unauthorized, Some token_not_valid]))) = []"
proof -
  let ?s = "browser logged_in [Some unauthorized, Some token_not_valid]"
  have h1: "scripted (world ?s) (first_request today no_options ?s)
            = (Some unauthorized, [Some token_not_valid])"
    by (simp add: scripted_def browser_def)
  have h2: "status unauthorized = 401"
    by (simp add: unauthorized_def)
  have h3: "getItem ?s ''refresh'' = Some ''r1''"
    by (simp add: getItem_def browser_def logged_in_def)
  have h4: "scripted [Some token_not_valid] (refresh_request ''r1'') = (Some token_not_valid, [])"
    by (simp add: scripted_def)
  have h5: "\<not> ok token_not_valid"
    by (simp add: ok_def token_not_valid_def)
  from failed_refresh_returns_original_401[where net=scripted, OF h1 h2 h3 h4 h5] h2 h3 h5
  show ?thesis
    by (simp add: browser_def logged_in_def)
qed

text \<open>
  C5. Every call sends one, two or three requests and no more: the first request, then at
  most one refresh request, then at most one retry of the original request. In
  particular, when the retry is answered with 401, that response is returned and the
  three requests are all that was sent: no second refresh is attempted.
\<close>

theorem at_most_three_requests:
  "(\<exists>r' b'. sent (snd (fetchWithAuth net u opts s)) = sent s @ [first_request u opts s]
       \<or> sent (snd (fetchWithAuth net u opts s)) =
            sent s @ [first_request u opts s, refresh_request r']
       \<or> sent (snd (fetchWithAuth net u opts s)) =
            sent s @ [first_request u opts s, refresh_request r', auth_request u opts b'])
   \<and> length (sent (snd (fetchWithAuth net u opts s))) \<le> length (sent s) + 3
   \<and> (net (world s) (first_request u opts s) = (Some res, w) \<and> status res = 401
        \<and> getItem s ''refresh'' = Some r \<and> r \<noteq> []
        \<and> net w (refresh_request r) = (Some rr, w2) \<and> ok rr
        \<and> json rr = Inr d \<and> access d = Inr a \<and> ToString a = Inr v
        \<and> net w2 (auth_request u opts (''Bearer '' @ v)) = (Some res3, w3) \<and> status res3 = 401
      \<longrightarrow> fst (fetchWithAuth net u opts s) = Inr res3
        \<and> sent (snd (fetchWithAuth net u opts s)) =
            sent s @ [first_request u opts s, refresh_request r,
                      auth_request u opts (''Bearer '' @ v)])"
proof (intro conjI impI)
  show "\<exists>r' b'. sent (snd (fetchWithAuth net u opts s)) = sent s @ [first_request u opts s]
       \<or> sent (snd (fetchWithAuth net u opts s)) =
            sent s @ [first_request u opts s, refresh_request r']
       \<or> sent (snd (fetchWithAuth net u opts s)) =
            sent s @ [first_request u opts s, refresh_request r', auth_request u opts b']"
    by (cases rule: fetchWithAuth_cases[of net s u opts]) auto
  show "length (sent (snd (fetchWithAuth net u opts s))) \<le> length (sent s) + 3"
    by (cases rule: fetchWithAuth_cases[of net s u opts]) simp_all
next
  assume h: "net (world s) (first_request u opts s) = (Some res, w) \<and> status res = 401
        \<and> getItem s ''refresh'' = Some r \<and> r \<noteq> []
        \<and> net w (refresh_request r) = (Some rr, w2) \<and> ok rr
        \<and> json rr = Inr d \<and> access d = Inr a \<and> ToString a = Inr v
        \<and> net w2 (auth_request u opts (''Bearer '' @ v)) = (Some res3, w3) \<and> status res3 = 401"
  then have first: "net (world s) (first_request u opts s) = (Some res, w)" "status res = 401"
    and held: "getItem s ''refresh'' = Some r" "r \<noteq> []"
    and refresh: "net w (refresh_request r) = (Some rr, w2)" "ok rr" "json rr = Inr d"
      "access d = Inr a" "ToString a = Inr v"
    and retry: "net w2 (auth_request u opts (''Bearer '' @ v)) = (Some res3, w3)"
    by simp_all
  have run: "fetchWithAuth net u opts s =
     (Inr res3,
      s\<lparr>storage := (storage s)(''access'' \<mapsto> v),
        writes := writes s @ [SetItem ''access'' v],
        sent := sent s @ [first_request u opts s, refresh_request r,
                          auth_request u opts (''Bearer '' @ v)],
        world := w3\<rparr>)"
    using refreshed[where net=net, OF first held refresh retry] by simp
  show "fst (fetchWithAuth net u opts s) = Inr res3"
    by (simp add: run)
  show "sent (snd (fetchWithAuth net u opts s)) =
            sent s @ [first_request u opts s, refresh_request r,
                      auth_request u opts (''Bearer '' @ v)]"
    by (simp add: run)
qed

theorem at_most_three_requests_witness:
  "status unauthorized = 401 \<and> ok fresh_token
   \<and> ToString (Some (JStr ''new'')) = Inr ''new''
   \<and> length (sent (snd (fetchWithAuth scripted today no_options
        (browser logged_in [Some unauthorized, Some fresh_token, Some unauthorized, Some entry])))) \<le> 3
   \<and> fst (fetchWithAuth scripted today no_options
        (browser logged_in [Some unauthorized, Some fresh_token, Some unauthorized, Some entry]))
       = Inr unauthorized
   \<and> sent (snd (fetchWithAuth scripted today no_options
        (browser logged_in [Some unauthorized, Some fresh_token, Some unauthorized, Some entry]))) =
       [auth_request today no_options ''Bearer old'', refresh_request ''r1'',
        auth_request today no_options ''Bearer new'']"
proof -
  let ?s = "browser logged_in [Some unauthorized, Some fresh_token, Some unauthorized, Some entry]"
  have h1: "scripted (world ?s) (first_request today no_options ?s)
            = (Some unauthorized, [Some fresh_token, Some unauthorized, Some entry])"
    by (simp add: scripted_def browser_def)
  have h2: "status unauthorized = 401"
    by (simp add: unauthorized_def)
  have h3: "getItem ?s ''refresh'' = Some ''r1'' \<and> ''r1'' \<noteq> []"
    by (simp add: getItem_def browser_def logged_in_def)
  have h5: "scripted [Some fresh_token, Some unauthorized, Some entry] (refresh_request ''r1'')
            = (Some fresh_token, [Some unauthorized, Some entry])"
    by (simp add: scripted_def)
  have h6: "ok fresh_token"
    by (simp add: ok_def fresh_token_def)
  have h7: "json fresh_token = Inr (JObj [(''access'', JStr ''new'')])"
    by (simp add: json_def fresh_token_def)
  have h8: "access (JObj [(''access'', JStr ''new'')]) = Inr (Some (JStr ''new''))"
    by simp
  have hv: "ToString (Some (JStr ''new'')) = Inr ''new''"
    by simp
  have h9: "scripted [Some unauthorized, Some entry]
              (auth_request today no_options (''Bearer '' @ ''new''))
            = (Some unauthorized, [Some entry])"
    by (simp add: scripted_def)
  have q1: "first_request today no_options ?s = auth_request today no_options ''Bearer old''"
    by (simp add: first_request_def getItem_def browser_def logged_in_def)
  from at_most_three_requests[where net=scripted and s="?s" and u=today and opts=no_options
      and res=unauthorized and w="[Some fresh_token, Some unauthorized, Some entry]"
      and r="''r1''" and rr=fresh_token and ?w2.0="[Some unauthorized, Some entry]"
      and d="JObj [(''access'', JStr ''new'')]" and a="Some (JStr ''new'')" and v="''new''"
      and ?res3.0=unauthorized and ?w3.0="[Some entry]"]
    h1 h2 h3 h5 h6 h7 h8 hv h9
  have "length (sent (snd (fetchWithAuth scripted today no_options ?s))) \<le> length (sent ?s) + 3
      \<and> fst (fetchWithAuth scripted today no_options ?s) = Inr unauthorized
      \<and> sent (snd (fetchWithAuth scripted today no_options ?s)) =
            sent ?s @ [first_request today no_options ?s, refresh_request ''r1'',
                       auth_request today no_options (''Bearer '' @ ''new'')]"
    by blast
  with h2 h6 hv q1 show ?thesis
    by (simp add: browser_def)
qed

text \<open>
  C6, as amended. When the first response is 401, a non-empty refresh credential is held,
  and the request to the refresh endpoint fails so that no response arrives, the failure
  is not handled like a refusal: the call itself rejects with that failure, the
  navigation is not invoked, no retry is sent, and the storage is as before.
\<close>

theorem refresh_transport_failure_propagates:
  assumes first: "net (world s) (first_request u opts s) = (Some res, w)" "status res = 401"
    and held: "getItem s ''refresh'' = Some r" "r \<noteq> []"
    and refresh: "net w (refresh_request r) = (None, w2)"
  shows "fst (fetchWithAuth net u opts s) = Inl FetchFailed
       \<and> navigated (snd (fetchWithAuth net u opts s)) = navigated s
       \<and> sent (snd (fetchWithAuth net u opts s)) =
           sent s @ [first_request u opts s, refresh_request r]
       \<and> storage (snd (fetchWithAuth net u opts s)) = storage s
       \<and> writes (snd (fetchWithAuth net u opts s)) = writes s"
proof -
  have "fetchWithAuth net u opts s =
      (Inl FetchFailed,
       s\<lparr>sent := sent s @ [first_request u opts s, refresh_request r], world := w2\<rparr>)"
    using first held refresh by (rule refresh_rejects[where net=net])
  then show ?thesis
    by simp
qed

theorem refresh_transport_failure_propagates_witness:
  "status unauthorized = 401
   \<and> getItem (browser logged_in [Some unauthorized, None]) ''refresh'' = Some ''r1''
   \<and> scripted [None] (refresh_request ''r1'') = (None, [])
   \<and> fst (fetchWithAuth scripted today no_options (browser logged_in [Some unauthorized, None]))
       = Inl FetchFailed
   \<and> navigated (snd (fetchWithAuth scripted today no_options
        (browser logged_in [Some unauthorized, None]))) = []
   \<and> sent (snd (fetchWithAuth scripted today no_options
        (browser logged_in [Some unauthorized, None]))) =
       [auth_request today no_options ''Bearer old'', refresh_request ''r1'']
   \<and> storage (snd (fetchWithAuth scripted today no_options
        (browser logged_in [Some unauthorized, None]))) = logged_in
   \<and> writes (snd (fetchWithAuth scripted today no_options
        (browser logged_in [Some unauthorized, None]))) = []"
proof -
  let ?s = "browser logged_in [Some unauthorized, None]"
  have h1: "scripted (world ?s) (first_request today no_options ?s) = (Some unauthorized, [None])"
    by (simp add: scripted_def browser_def)
  have h2: "status unauthorized = 401"
    by (simp add: unauthorized_def)
  have h3: "getItem ?s ''refresh'' = Some ''r1''"
    by (simp add: getItem_def browser_def logged_in_def)
  have h4: "''r1'' \<noteq> []"
    by simp
  have h5: "scripted [None] (refresh_request ''r1'') = (None, [])"
    by (simp add: scripted_def)
  have q1: "first_request today no_options ?s = auth_request today no_options ''Bearer old''"
    by (simp add: first_request_def getItem_def browser_def logged_in_def)
  from refresh_transport_failure_propagates[where net=scripted, OF h1 h2 h3 h4 h5] h2 h3 h5 q1
  show ?thesis
    by (simp add: browser_def)
qed

text \<open>
  C6 as it is stated expects the navigation and a resolved result. With \<^verbatim>\<open>r1\<close> stored
  under "refresh", a first 401 and a refresh request that fails, the call rejects and
  nothing was navigated to.
\<close>

theorem refresh_transport_failure_counterexample:
  "scripted [Some unauthorized, None]
      (first_request today no_options (browser logged_in [Some unauthorized, None]))
     = (Some unauthorized, [None])
   \<and> status unauthorized = 401
   \<and> getItem (browser logged_in [Some unauthorized, None]) ''refresh'' = Some ''r1''
   \<and> scripted [None] (refresh_request ''r1'') = (None, [])
   \<and> fst (fetchWithAuth scripted today no_options (browser logged_in [Some unauthorized, None]))
       = Inl FetchFailed
   \<and> navigated (snd (fetchWithAuth scripted today no_options
        (browser logged_in [Some unauthorized, None]))) = []"
proof -
  let ?s = "browser logged_in [Some unauthorized, None]"
  have h1: "scripted (world ?s) (first_request today no_options ?s) = (Some unauthorized, [None])"
    by (simp add: scripted_def browser_def)
  have h2: "status unauthorized = 401"
    by (simp add: unauthorized_def)
  have h3: "getItem ?s ''refresh'' = Some ''r1''"
    by (simp add: getItem_def browser_def logged_in_def)
  have h4: "''r1'' \<noteq> []"
    by simp
  have h5: "scripted [None] (refresh_request ''r1'') = (None, [])"
    by (simp add: scripted_def)
  have w: "world ?s = [Some unauthorized, None]"
    by (simp add: browser_def)
  have run: "fetchWithAuth scripted today no_options ?s =
      (Inl FetchFailed,
       ?s\<lparr>sent := sent ?s @ [first_request today no_options ?s, refresh_request ''r1''],
           world := []\<rparr>)"
    by (rule refresh_rejects[where net=scripted, OF h1 h2 h3 h4 h5])
  show ?thesis
    unfolding run using h1[unfolded w] h2 h3 h5 by (simp add: browser_def)
qed




text \<open>
  C8. No call writes or deletes the key "refresh": its stored value is as before. Either
  nothing at all is written, or the refresh endpoint answered 2xx and exactly one write
  was made, a \<^verbatim>\<open>setItem\<close> of the key "access".
\<close>

theorem refresh_key_never_written:
  "storage (snd (fetchWithAuth net u opts s)) ''refresh'' = storage s ''refresh''
   \<and> ((writes (snd (fetchWithAuth net u opts s)) = writes s
        \<and> storage (snd (fetchWithAuth net u opts s)) = storage s)
      \<or> (\<exists>res w r rr w2 v.
            net (world s) (first_request u opts s) = (Some res, w) \<and> status res = 401
            \<and> getItem s ''refresh'' = Some r
            \<and> net w (refresh_request r) = (Some rr, w2) \<and> ok rr
            \<and> writes (snd (fetchWithAuth net u opts s)) = writes s @ [SetItem ''access'' v]
            \<and> storage (snd (fetchWithAuth net u opts s)) = (storage s)(''access'' \<mapsto> v)))"
proof (cases rule: fetchWithAuth_cases[of net s u opts])
  case (refreshed res w r rr w2 d a v out w3)
  have "net (world s) (first_request u opts s) = (Some res, w) \<and> status res = 401
            \<and> getItem s ''refresh'' = Some r
            \<and> net w (refresh_request r) = (Some rr, w2) \<and> ok rr
            \<and> writes (snd (fetchWithAuth net u opts s)) = writes s @ [SetItem ''access'' v]
            \<and> storage (snd (fetchWithAuth net u opts s)) = (storage s)(''access'' \<mapsto> v)"
    using refreshed by simp
  then have "\<exists>res w r rr w2 v.
            net (world s) (first_request u opts s) = (Some res, w) \<and> status res = 401
            \<and> getItem s ''refresh'' = Some r
            \<and> net w (refresh_request r) = (Some rr, w2) \<and> ok rr
            \<and> writes (snd (fetchWithAuth net u opts s)) = writes s @ [SetItem ''access'' v]
            \<and> storage (snd (fetchWithAuth net u opts s)) = (storage s)(''access'' \<mapsto> v)"
    by blast
  moreover have "storage (snd (fetchWithAuth net u opts s)) ''refresh'' = storage s ''refresh''"
    using refreshed by simp
  ultimately show ?thesis
    by blast
qed simp_all

theorem refresh_key_never_written_witness:
  "storage (snd (fetchWithAuth scripted today no_options
      (browser logged_in [Some unauthorized, Some fresh_token, Some entry]))) ''refresh'' = Some ''r1''
   \<and> writes (snd (fetchWithAuth scripted today no_options
      (browser logged_in [Some unauthorized, Some fresh_token, Some entry]))) = [SetItem ''access'' ''new'']"
proof -
  let ?s = "browser logged_in [Some unauthorized, Some fresh_token, Some entry]"
  have kept: "storage (snd (fetchWithAuth scripted today no_options ?s)) ''refresh''
              = storage ?s ''refresh''"
    using refresh_key_never_written[of scripted today no_options ?s] by (rule conjunct1)
  have h1: "scripted (world ?s) (first_request today no_options ?s)
            = (Some unauthorized, [Some fresh_token, Some entry])"
    by (simp add: scripted_def browser_def)
  have h2: "status unauthorized = 401"
    by (simp add: unauthorized_def)
  have h3: "getItem ?s ''refresh'' = Some ''r1''"
    by (simp add: getItem_def browser_def logged_in_def)
  have h4: "''r1'' \<noteq> []"
    by simp
  have h5: "scripted [Some fresh_token, Some entry] (refresh_request ''r1'')
            = (Some fresh_token, [Some entry])"
    by (simp add: scripted_def)
  have h6: "ok fresh_token"
    by (simp add: ok_def fresh_token_def)
  have h7: "json fresh_token = Inr (JObj [(''access'', JStr ''new'')])"
    by (simp add: json_def fresh_token_def)
  have h8: "access (JObj [(''access'', JStr ''new'')]) = Inr (Some (JStr ''new''))"
    by simp
  have hv: "ToString (Some (JStr ''new'')) = Inr ''new''"
    by simp
  have h9: "scripted [Some entry] (auth_request today no_options (''Bearer '' @ ''new''))
            = (Some entry, [])"
    by (simp add: scripted_def)
  have "writes (snd (fetchWithAuth scripted today no_options ?s)) = [SetItem ''access'' ''new'']"
    using refreshed[where net=scripted, OF h1 h2 h3 h4 h5 h6 h7 h8 hv h9]
    by (simp add: browser_def)
  with kept show ?thesis
    by (simp add: browser_def logged_in_def)
qed

text \<open>
  C9, as amended. A call navigates to \<^verbatim>\<open>/\<close> once or not at all, never twice. It
  does so once exactly when the first response is 401 and either the stored refresh
  credential is missing or empty, or the refresh endpoint answers with a response that is
  not 2xx. In every other case it does not navigate: when the first response is not 401,
  when the refresh endpoint answers 2xx, and when the first request or the refresh
  request fails without a response.
\<close>

theorem navigation_at_most_once:
  assumes first: "net (world s) (first_request u opts s) = (o1, w1)"
    and refresh: "\<And>r. getItem s ''refresh'' = Some r \<Longrightarrow> net w1 (refresh_request r) = (o2, w2)"
  shows "navigated (snd (fetchWithAuth net u opts s)) =
           navigated s @ (if is_401 o1 \<and> (falsy (getItem s ''refresh'') \<or> refused o2)
                          then [''/''] else [])
       \<and> (navigated (snd (fetchWithAuth net u opts s)) = navigated s
          \<or> navigated (snd (fetchWithAuth net u opts s)) = navigated s @ [''/''])"
proof -
  have "navigated (snd (fetchWithAuth net u opts s)) =
           navigated s @ (if is_401 o1 \<and> (falsy (getItem s ''refresh'') \<or> refused o2)
                          then [''/''] else [])"
  proof (cases rule: fetchWithAuth_cases[of net s u opts])
    case (first_rejects w)
    with first show ?thesis by auto
  next
    case (not_401 res w)
    with first show ?thesis by auto
  next
    case (no_refresh res w)
    with first show ?thesis by auto
  next
    case (refresh_rejects res w r w2')
    with first refresh[of r] show ?thesis by auto
  next
    case (refresh_not_ok res w r rr w2')
    with first refresh[of r] show ?thesis by auto
  next
    case (refresh_throws res w r rr w2' e)
    with first refresh[of r] show ?thesis by auto
  next
    case (refreshed res w r rr w2' d a v out w3)
    with first refresh[of r] show ?thesis by auto
  qed
  then show ?thesis
    by simp
qed

theorem navigation_at_most_once_witness:
  "is_401 (Some unauthorized) \<and> refused (Some token_not_valid)
   \<and> navigated (snd (fetchWithAuth scripted today no_options
        (browser logged_in [Some unauthorized, Some token_not_valid]))) = [''/'']"
proof -
  let ?s = "browser logged_in [Some unauthorized, Some token_not_valid]"
  have h1: "scripted (world ?s) (first_request today no_options ?s)
            = (Some unauthorized, [Some token_not_valid])"
    by (simp add: scripted_def browser_def)
  have h2: "\<And>r. getItem ?s ''refresh'' = Some r \<Longrightarrow>
              scripted [Some token_not_valid] (refresh_request r) = (Some token_not_valid, [])"
    by (simp add: scripted_def)
  have h3: "is_401 (Some unauthorized)"
    by (simp add: unauthorized_def)
  have h4: "refused (Some token_not_valid)"
    by (simp add: ok_def token_not_valid_def)
  from navigation_at_most_once[where net=scripted, OF h1 h2] h3 h4 show ?thesis
    by (simp add: browser_def)
qed

text \<open>
  C9 as it is stated has one navigation whenever the first response is 401 and no
  refresh succeeded. When the refresh request fails without a response, the call ends
  there, and nothing was navigated to.
\<close>

theorem navigation_skipped_counterexample:
  "is_401 (Some unauthorized)
   \<and> getItem (browser logged_in [Some unauthorized, None]) ''refresh'' = Some ''r1''
   \<and> scripted [Some unauthorized, None]
        (first_request today no_options (browser logged_in [Some unauthorized, None]))
       = (Some unauthorized, [None])
   \<and> scripted [None] (refresh_request ''r1'') = (None, [])
   \<and> navigated (snd (fetchWithAuth scripted today no_options
        (browser logged_in [Some unauthorized, None]))) = []"
proof -
  let ?s = "browser logged_in [Some unauthorized, None]"
  have h1: "scripted (world ?s) (first_request today no_options ?s) = (Some unauthorized, [None])"
    by (simp add: scripted_def browser_def)
  have h2: "status unauthorized = 401"
    by (simp add: unauthorized_def)
  have h3: "getItem ?s ''refresh'' = Some ''r1''"
    by (simp add: getItem_def browser_def logged_in_def)
  have h4: "''r1'' \<noteq> []"
    by simp
  have h5: "scripted [None] (refresh_request ''r1'') = (None, [])"
    by (simp add: scripted_def)
  have w: "world ?s = [Some unauthorized, None]"
    by (simp add: browser_def)
  have "navigated (snd (fetchWithAuth scripted today no_options ?s)) = []"
    using refresh_rejects[where net=scripted, OF h1 h2 h3 h4 h5] by (simp add: browser_def)
  with h1[unfolded w] h2 h3 h5 show ?thesis
    by simp
qed

text \<open>
  C10. A call made while the storage has no key "access" still sends its first request,
  and that request carries \<^verbatim>\<open>Authorization: Bearer null\<close>. The interceptor of the
  axios instance, run on the same storage, leaves the configuration as it finds it and
  adds no \<^verbatim>\<open>Authorization\<close> header.
\<close>

theorem absent_access_sends_bearer_null:
  assumes "getItem s ''access'' = None"
  shows "(\<exists>rest. sent (snd (fetchWithAuth net u opts s)) = sent s @ first_request u opts s # rest)
       \<and> header (first_request u opts s) ''Authorization'' = Some ''Bearer null''
       \<and> interceptor (storage s) cfg = cfg"
proof (intro conjI)
  show "\<exists>rest. sent (snd (fetchWithAuth net u opts s)) = sent s @ first_request u opts s # rest"
    by (rule first_request_sent)
  show "header (first_request u opts s) ''Authorization'' = Some ''Bearer null''"
    using assms by (simp add: first_request_def header_Authorization)
  from assms have "storage s ''access'' = None"
    by (simp add: getItem_def)
  then show "interceptor (storage s) cfg = cfg"
    by (simp add: interceptor_def)
qed

theorem absent_access_sends_bearer_null_witness:
  "getItem (browser Map.empty [Some unauthorized]) ''access'' = None
   \<and> sent (snd (fetchWithAuth scripted today no_options (browser Map.empty [Some unauthorized])))
       = [first_request today no_options (browser Map.empty [Some unauthorized])]
   \<and> header (first_request today no_options (browser Map.empty [Some unauthorized])) ''Authorization''
       = Some ''Bearer null''
   \<and> config_headers (interceptor (storage (browser Map.empty [Some unauthorized])) token_config)
        ''Authorization'' = None"
proof -
  let ?s = "browser Map.empty [Some unauthorized]"
  have a: "getItem ?s ''access'' = None"
    by (simp add: getItem_def browser_def)
  note t = absent_access_sends_bearer_null[where net=scripted and u=today and opts=no_options
      and cfg=token_config, OF a]
  have h1: "scripted (world ?s) (first_request today no_options ?s) = (Some unauthorized, [])"
    by (simp add: scripted_def browser_def)
  have h2: "status unauthorized = 401"
    by (simp add: unauthorized_def)
  have h3: "falsy (getItem ?s ''refresh'')"
    by (simp add: getItem_def browser_def)
  have "sent (snd (fetchWithAuth scripted today no_options ?s)) = [first_request today no_options ?s]"
    using no_refresh[where net=scripted, OF h1 h2 h3] by (simp add: browser_def)
  moreover have "config_headers (interceptor (storage ?s) token_config) ''Authorization'' = None"
    using t by (simp add: token_config_def)
  ultimately show ?thesis
    using a t by simp
qed

end
